theory Spec2Isabelle
  imports Complex_Main "HOL-Library.Word"
begin

section \<open>The image injection tool \<open>resources/mgv_imc_image_injection.py\<close>\<close>

text \<open>
  The tool reads an NVM image, follows a chain of pointer and size fields stored in it,
  and writes a new file in which the second payload of the nested container is replaced.
  A file is modelled by its content, a list of bytes; Python's integers are \<open>int\<close>.
  The three files are taken to exist, to be readable or writable, and to be different
  files; the \<open>print\<close> calls of \<open>main\<close> write to the terminal only and are left out.
\<close>

subsection \<open>Bytes and exceptions\<close>

type_synonym byte = "8 word"

text \<open>
  The exceptions that the statements of the source can raise on integer arguments
  (\<open>OSError\<close>: \<open>seek\<close> to a negative position; \<open>ValueError\<close>: \<open>read\<close> of a length
  below \<open>-1\<close>; \<open>OverflowError\<close>: \<open>to_bytes\<close> of a value that does not fit), and the
  two error kinds that only the specification names, \<open>BoundsError\<close> and
  \<open>LayoutError\<close>.
\<close>

datatype error = OSError | ValueError | OverflowError | BoundsError | LayoutError

text \<open>\<open>int.from_bytes(data, 'little')\<close>; the empty byte string gives 0.\<close>

fun from_bytes_little :: "byte list \<Rightarrow> int" where
  "from_bytes_little [] = 0"
| "from_bytes_little (b # bs) = uint b + 256 * from_bytes_little bs"

text \<open>
  \<open>n.to_bytes(length, byteorder='little')\<close>: the \<open>length\<close> low bytes of \<open>n\<close>, lowest
  first; \<open>OverflowError\<close> when \<open>n\<close> is negative or needs more than \<open>length\<close> bytes.
\<close>

fun le_bytes :: "nat \<Rightarrow> int \<Rightarrow> byte list" where
  "le_bytes 0 n = []"
| "le_bytes (Suc k) n = word_of_int (n mod 256) # le_bytes k (n div 256)"

definition to_bytes :: "int \<Rightarrow> nat \<Rightarrow> error + byte list" where
  "to_bytes n len =
     (if n < 0 \<or> 256 ^ len \<le> n then Inl OverflowError else Inr (le_bytes len n))"

subsection \<open>Binary files opened for reading\<close>

text \<open>
  \<open>file.seek(offset)\<close> on a file opened with mode \<open>'rb'\<close>: the new position, or
  \<open>OSError\<close> for a negative offset. Seeking past the end is allowed. Positions are taken
  to fit the file offset type of the platform; those of the chain are below \<open>2 ^ 36\<close>.
\<close>

definition file_seek :: "int \<Rightarrow> error + nat" where
  "file_seek offset = (if offset < 0 then Inl OSError else Inr (nat offset))"

text \<open>
  \<open>file.read(size)\<close> at position \<open>pos\<close>: at most \<open>size\<close> bytes, fewer when the file
  ends first, none at or past the end; \<open>size = -1\<close> (the default of \<open>read()\<close>) reads
  to the end; a smaller \<open>size\<close> raises \<open>ValueError\<close>.

  A read of \<open>size\<close> bytes asks for a buffer of \<open>size\<close> bytes before it reads, and the
  model takes the buffer to be granted. \<open>read_field\<close> asks for 2 or 4 bytes. Line 73 of
  \<open>main\<close> asks for \<open>zephyr_size_pointer\<close> bytes, a size that the fields of the image set
  (below \<open>2 ^ 36\<close>): when it is at most the length of the image the request is no larger
  than the file being copied, and otherwise it can be refused with \<open>MemoryError\<close>, which
  the model leaves out. The statements below about a completed run and about the whole
  output are therefore made for images whose injection point lies within the image.
\<close>

definition file_read :: "byte list \<Rightarrow> nat \<Rightarrow> int \<Rightarrow> error + byte list" where
  "file_read content pos sz =
     (if sz < - 1 then Inl ValueError
      else if sz = - 1 then Inr (drop pos content)
      else Inr (take (nat sz) (drop pos content)))"

subsection \<open>\<open>read_field\<close> and \<open>WORDS_TO_BYTES\<close>\<close>

text \<open>
  \<open>read_field(file_path, offset, size, endian='little')\<close>: open, seek, read, decode.
  The first argument of the model is the content of the file at \<open>file_path\<close>, and
  \<open>sz\<close> is the parameter \<open>size\<close>. There is no comparison of \<open>offset + size\<close> with
  the length of the file.
\<close>

definition read_field :: "byte list \<Rightarrow> int \<Rightarrow> int \<Rightarrow> error + int" where
  "read_field file offset sz =
     (case file_seek offset of
        Inl e \<Rightarrow> Inl e
      | Inr pos \<Rightarrow>
          (case file_read file pos sz of
             Inl e \<Rightarrow> Inl e
           | Inr data \<Rightarrow> Inr (from_bytes_little data)))"

definition WORDS_TO_BYTES :: "int \<Rightarrow> int" where
  "WORDS_TO_BYTES address = address * 2"

subsection \<open>\<open>main\<close>, first part: the pointer chain (lines 28 to 64)\<close>

text \<open>
  The locals of \<open>main\<close> that the chain computes; \<open>size_bl31\<close> is the local \<open>size\<close>. In
  \<open>main_resolve\<close> the bound names \<open>ptr\<close>, \<open>sz\<close>, \<open>u_boot\<close>, \<open>bl3\<close>, \<open>zsp\<close>, \<open>zsz\<close>
  and \<open>zao\<close> are these locals in the order of the record, and \<open>v1\<close>, \<open>v2\<close>, \<open>v3\<close> are
  the values of the three 4-byte reads.
\<close>

record pointers =
  UBOOT_pointer_address :: int
  size_bl31 :: int
  u_boot_pointer_address :: int
  bl3_size :: int
  zephyr_size_pointer :: int
  zephyr_size :: int
  zephyr_actual_offset :: int

definition UBOOT_high_ptr_words :: int where
  "UBOOT_high_ptr_words = 0x000038EA"

definition UBOOT_low_ptr_words :: int where
  "UBOOT_low_ptr_words = 0x000038E9"

definition inner_nvm_section_offset :: int where
  "inner_nvm_section_offset = 0x3800"

text \<open>An exception in a \<open>read_field\<close> call ends \<open>main\<close>; the next statement runs otherwise.\<close>

definition and_then :: "error + 'a \<Rightarrow> ('a \<Rightarrow> error + 'b) \<Rightarrow> error + 'b" where
  "and_then r f = (case r of Inl e \<Rightarrow> Inl e | Inr v \<Rightarrow> f v)"

definition main_resolve :: "byte list \<Rightarrow> error + pointers" where
  "main_resolve img =
     (let UBOOT_high_ptr_address = WORDS_TO_BYTES UBOOT_high_ptr_words;
          UBOOT_low_ptr_address = WORDS_TO_BYTES UBOOT_low_ptr_words
      in
      and_then (read_field img UBOOT_high_ptr_address 2) (\<lambda>UBOOT_high.
      and_then (read_field img UBOOT_low_ptr_address 2) (\<lambda>UBOOT_low.
      let ptr = WORDS_TO_BYTES (push_bit 16 UBOOT_high + UBOOT_low + inner_nvm_section_offset)
      in
      and_then (read_field img ptr 4) (\<lambda>v1.
      let sz = WORDS_TO_BYTES v1;
          u_boot = ptr + sz + 4 + 4
      in
      and_then (read_field img u_boot 4) (\<lambda>v2.
      let bl3 = WORDS_TO_BYTES v2;
          zsp = u_boot + 4 + bl3
      in
      and_then (read_field img zsp 4) (\<lambda>v3.
      let zsz = WORDS_TO_BYTES v3;
          zao = zsp + 4
      in
      Inr \<lparr>UBOOT_pointer_address = ptr, size_bl31 = sz, u_boot_pointer_address = u_boot,
           bl3_size = bl3, zephyr_size_pointer = zsp, zephyr_size = zsz,
           zephyr_actual_offset = zao\<rparr>))))))"

subsection \<open>\<open>main\<close>, second part: writing the output file (lines 68 to 77)\<close>

text \<open>
  What a run leaves behind: the content of the output file (\<open>None\<close> when the run ended
  before the file was opened for writing) and the exception that ended the run, if any.
  The \<open>with\<close> statement closes the output file on every exit, so the bytes written before
  an exception stay in the file.
\<close>

record run =
  new_file :: "byte list option"
  raised :: "error option"

definition main :: "byte list \<Rightarrow> byte list \<Rightarrow> run" where
  "main img injection_data =
     (case main_resolve img of
        Inl e \<Rightarrow> \<lparr>new_file = None, raised = Some e\<rparr>
      | Inr p \<Rightarrow>
     (case file_read img 0 (zephyr_size_pointer p) of
        Inl e \<Rightarrow> \<lparr>new_file = Some [], raised = Some e\<rparr>
      | Inr head \<Rightarrow>
     (case to_bytes \<lceil>real (length injection_data) / 2\<rceil> 4 of
        Inl e \<Rightarrow> \<lparr>new_file = Some head, raised = Some e\<rparr>
      | Inr header \<Rightarrow>
     (case file_seek (zephyr_actual_offset p + int (length injection_data)) of
        Inl e \<Rightarrow> \<lparr>new_file = Some (head @ header @ injection_data), raised = Some e\<rparr>
      | Inr pos \<Rightarrow>
     (case file_read img pos (- 1) of
        Inl e \<Rightarrow> \<lparr>new_file = Some (head @ header @ injection_data), raised = Some e\<rparr>
      | Inr rest \<Rightarrow>
          \<lparr>new_file = Some (head @ header @ injection_data @ rest), raised = None\<rparr>)))))"

subsection \<open>The locals of the chain as functions of the image\<close>

text \<open>
  Every offset of the chain is a sum of non-negative values, so no \<open>seek\<close> of the chain
  fails and each local is a natural number that depends on the image only. \<open>field\<close> is
  the value \<open>read_field\<close> returns at a non-negative offset; the functions below are the
  locals of lines 42 to 64, named after them (lemma \<open>main_resolve_closed\<close>).
\<close>

definition field :: "byte list \<Rightarrow> nat \<Rightarrow> nat \<Rightarrow> nat" where
  "field img off w = nat (from_bytes_little (take w (drop off img)))"

definition UBOOT_pointer_address_of :: "byte list \<Rightarrow> nat" where
  "UBOOT_pointer_address_of img =
     2 * (field img (2 * 0x38EA) 2 * 2 ^ 16 + field img (2 * 0x38E9) 2 + 0x3800)"

definition size_of :: "byte list \<Rightarrow> nat" where
  "size_of img = 2 * field img (UBOOT_pointer_address_of img) 4"

definition u_boot_pointer_address_of :: "byte list \<Rightarrow> nat" where
  "u_boot_pointer_address_of img = UBOOT_pointer_address_of img + size_of img + 4 + 4"

definition bl3_size_of :: "byte list \<Rightarrow> nat" where
  "bl3_size_of img = 2 * field img (u_boot_pointer_address_of img) 4"

definition zephyr_size_pointer_of :: "byte list \<Rightarrow> nat" where
  "zephyr_size_pointer_of img = u_boot_pointer_address_of img + 4 + bl3_size_of img"

definition zephyr_size_of :: "byte list \<Rightarrow> nat" where
  "zephyr_size_of img = 2 * field img (zephyr_size_pointer_of img) 4"

definition zephyr_actual_offset_of :: "byte list \<Rightarrow> nat" where
  "zephyr_actual_offset_of img = zephyr_size_pointer_of img + 4"

text \<open>
  The specification calls the offset of the second payload's size header the injection
  point; it is the local \<open>zephyr_size_pointer\<close>. Its \<open>old_payload_end\<close> is the offset
  after the stored size of that payload. The source computes both summands
  (\<open>zephyr_actual_offset\<close> and \<open>zephyr_size\<close>), never their sum.
\<close>

definition injection_point :: "byte list \<Rightarrow> nat" where
  "injection_point img = zephyr_size_pointer_of img"

definition old_payload_end :: "byte list \<Rightarrow> nat" where
  "old_payload_end img = zephyr_actual_offset_of img + zephyr_size_of img"

text \<open>
  The fields of the chain are in bounds when each of the five reads ends within the image.
  The chain is well formed when, moreover, the second payload ends within the image (the
  invariant \<open>injection_point \<le> old_payload_end \<le> len(Image)\<close> of section 3 of the
  specification).
\<close>

definition chain_in_bounds :: "byte list \<Rightarrow> bool" where
  "chain_in_bounds img \<longleftrightarrow>
     2 * 0x38EA + 2 \<le> length img \<and>
     2 * 0x38E9 + 2 \<le> length img \<and>
     UBOOT_pointer_address_of img + 4 \<le> length img \<and>
     u_boot_pointer_address_of img + 4 \<le> length img \<and>
     zephyr_size_pointer_of img + 4 \<le> length img"

definition well_formed_chain :: "byte list \<Rightarrow> bool" where
  "well_formed_chain img \<longleftrightarrow> chain_in_bounds img \<and> old_payload_end img \<le> length img"

subsection \<open>The resolver as the specification words it\<close>

text \<open>
  Section 4.1 of the specification: \<open>read_field(image, byte_offset, width)\<close> fails with
  \<open>BoundsError\<close> if \<open>byte_offset + width > len(image)\<close>. Section 4.2, steps 1 to 8, with
  the word offsets of the source as the configuration.
\<close>

definition spec_read_field :: "byte list \<Rightarrow> int \<Rightarrow> int \<Rightarrow> error + int" where
  "spec_read_field img byte_offset width =
     (if byte_offset + width > int (length img) then Inl BoundsError
      else Inr (from_bytes_little (take (nat width) (drop (nat byte_offset) img))))"

definition spec_resolve_injection_point :: "byte list \<Rightarrow> error + int \<times> int" where
  "spec_resolve_injection_point img =
     and_then (spec_read_field img (2 * UBOOT_high_ptr_words) 2) (\<lambda>ptr_high.
     and_then (spec_read_field img (2 * UBOOT_low_ptr_words) 2) (\<lambda>ptr_low.
     let combined_ptr_words = push_bit 16 ptr_high + ptr_low + inner_nvm_section_offset;
         size_field_offset = 2 * combined_ptr_words
     in
     and_then (spec_read_field img size_field_offset 4) (\<lambda>w1.
     let first_blob_size = 2 * w1;
         payload_pair_offset = size_field_offset + first_blob_size + 8
     in
     and_then (spec_read_field img payload_pair_offset 4) (\<lambda>w2.
     let payload1_size = 2 * w2;
         inj = payload_pair_offset + 4 + payload1_size
     in
     and_then (spec_read_field img inj 4) (\<lambda>w3.
     let payload2_size = 2 * w3;
         old_end = inj + 4 + payload2_size
     in
     Inr (inj, old_end))))))"

subsection \<open>A sample image\<close>

text \<open>
  An image of 0x721E bytes. The pointer words at word offsets 0x38E9 and 0x38EA are
  0x0100 and 0, so the size field is at byte 0x7200. It holds 2 (words); the pair of
  payloads starts at 0x720C with the first payload's count 1 and its two bytes; the
  second payload's size header is at 0x7212 and holds 2, its four bytes follow at
  0x7216 and end at 0x721A; four more bytes end the image.
\<close>

definition sample_image :: "byte list" where
  "sample_image =
     replicate 0x71D2 0 @ [0x00, 0x01, 0x00, 0x00] @ replicate 0x2A 0 @
     [0x02, 0, 0, 0] @ [0xA0, 0xA1, 0xA2, 0xA3, 0xA4, 0xA5, 0xA6, 0xA7] @
     [0x01, 0, 0, 0] @ [0xB0, 0xB1] @
     [0x02, 0, 0, 0] @ [0x11, 0x22, 0x33, 0x44] @
     [0xDE, 0xAD, 0xBE, 0xEF]"

section \<open>Basic facts\<close>

subsection \<open>Little-endian encoding and decoding\<close>

lemma from_bytes_little_nonneg: "0 \<le> from_bytes_little bs"
  by (induction bs) simp_all

lemma from_bytes_little_bound: "from_bytes_little bs < 256 ^ length bs"
proof (induction bs)
  case Nil
  show ?case by simp
next
  case (Cons b bs)
  have "uint b < 256" using uint_bounded [of b] by simp
  with Cons show ?case by simp
qed

lemma length_le_bytes: "length (le_bytes k n) = k"
  by (induction k arbitrary: n) simp_all

lemma le_bytes_from_bytes: "le_bytes (length bs) (from_bytes_little bs) = bs"
proof (induction bs)
  case Nil
  show ?case by simp
next
  case (Cons b bs)
  have b: "0 \<le> uint b" "uint b < 256" using uint_bounded [of b] by simp_all
  then have "(uint b + 256 * from_bytes_little bs) mod 256 = uint b"
    by simp
  moreover from b have "(uint b + 256 * from_bytes_little bs) div 256 = from_bytes_little bs"
    by simp
  ultimately show ?case using Cons by simp
qed

lemma from_bytes_le_bytes:
  "0 \<le> n \<Longrightarrow> n < 256 ^ k \<Longrightarrow> from_bytes_little (le_bytes k n) = n"
proof (induction k arbitrary: n)
  case 0
  then show ?case by simp
next
  case (Suc k)
  have "n div 256 < 256 ^ k" using Suc.prems by simp
  moreover have "0 \<le> n div 256" using Suc.prems by simp
  ultimately have ih: "from_bytes_little (le_bytes k (n div 256)) = n div 256"
    by (rule Suc.IH [rotated])
  have "uint (word_of_int (n mod 256) :: byte) = n mod 256"
    by (simp add: uint_word_of_int take_bit_eq_mod)
  with ih show ?case by simp
qed

lemma ceiling_half: "\<lceil>real n / 2\<rceil> = (int n + 1) div 2"
proof -
  have "real n / 2 = real_of_int (int n) / real_of_int 2" by simp
  then have "\<lceil>real n / 2\<rceil> = - (- int n div 2)"
    by (simp only: ceiling_divide_eq_div)
  also have "\<dots> = (int n + 1) div 2" by arith
  finally show ?thesis .
qed

subsection \<open>Reads at non-negative offsets succeed\<close>

lemma read_field_nat:
  "read_field img (int off) (int w) = Inr (from_bytes_little (take w (drop off img)))"
  by (simp add: read_field_def file_seek_def file_read_def)

lemma read_field_nonneg:
  "0 \<le> off \<Longrightarrow> 0 \<le> w \<Longrightarrow>
   read_field img off w = Inr (from_bytes_little (take (nat w) (drop (nat off) img)))"
  by (simp add: read_field_def file_seek_def file_read_def)



lemma read_field_2: "read_field img (int off) 2 = Inr (int (field img off 2))"
  using read_field_nat [of img off 2] by (simp add: field_def from_bytes_little_nonneg)

lemma read_field_4: "read_field img (int off) 4 = Inr (int (field img off 4))"
  using read_field_nat [of img off 4] by (simp add: field_def from_bytes_little_nonneg)

lemma main_resolve_closed:
  "main_resolve img =
     Inr \<lparr>UBOOT_pointer_address = int (UBOOT_pointer_address_of img),
          size_bl31 = int (size_of img),
          u_boot_pointer_address = int (u_boot_pointer_address_of img),
          bl3_size = int (bl3_size_of img),
          zephyr_size_pointer = int (zephyr_size_pointer_of img),
          zephyr_size = int (zephyr_size_of img),
          zephyr_actual_offset = int (zephyr_actual_offset_of img)\<rparr>"
proof -
  have hi: "read_field img (WORDS_TO_BYTES UBOOT_high_ptr_words) 2
            = Inr (int (field img (2 * 0x38EA) 2))"
    using read_field_2 [of img "2 * 0x38EA"]
    by (simp add: WORDS_TO_BYTES_def UBOOT_high_ptr_words_def)
  have lo: "read_field img (WORDS_TO_BYTES UBOOT_low_ptr_words) 2
            = Inr (int (field img (2 * 0x38E9) 2))"
    using read_field_2 [of img "2 * 0x38E9"]
    by (simp add: WORDS_TO_BYTES_def UBOOT_low_ptr_words_def)
  have ptr: "WORDS_TO_BYTES (push_bit 16 (int (field img (2 * 0x38EA) 2))
               + int (field img (2 * 0x38E9) 2) + inner_nvm_section_offset)
             = int (UBOOT_pointer_address_of img)"
    by (simp add: WORDS_TO_BYTES_def inner_nvm_section_offset_def
        UBOOT_pointer_address_of_def push_bit_eq_mult)
  have sz: "WORDS_TO_BYTES (int (field img (UBOOT_pointer_address_of img) 4))
            = int (size_of img)"
    by (simp add: WORDS_TO_BYTES_def size_of_def)
  have ub: "int (UBOOT_pointer_address_of img) + int (size_of img) + 4 + 4
            = int (u_boot_pointer_address_of img)"
    by (simp add: u_boot_pointer_address_of_def)
  have bl: "WORDS_TO_BYTES (int (field img (u_boot_pointer_address_of img) 4))
            = int (bl3_size_of img)"
    by (simp add: WORDS_TO_BYTES_def bl3_size_of_def)
  have zp: "int (u_boot_pointer_address_of img) + 4 + int (bl3_size_of img)
            = int (zephyr_size_pointer_of img)"
    by (simp add: zephyr_size_pointer_of_def)
  have zs: "WORDS_TO_BYTES (int (field img (zephyr_size_pointer_of img) 4))
            = int (zephyr_size_of img)"
    by (simp add: WORDS_TO_BYTES_def zephyr_size_of_def)
  have za: "int (zephyr_size_pointer_of img) + 4 = int (zephyr_actual_offset_of img)"
    by (simp add: zephyr_actual_offset_of_def)
  show ?thesis
    unfolding main_resolve_def Let_def and_then_def
    by (simp only: hi lo ptr read_field_4 sz ub bl zp zs za sum.case)
qed


subsection \<open>What a run writes\<close>

lemma to_bytes_header:
  "to_bytes \<lceil>real n / 2\<rceil> 4 =
     (if n < 2 ^ 33 - 1 then Inr (le_bytes 4 ((int n + 1) div 2)) else Inl OverflowError)"
proof -
  have "4294967296 \<le> (int n + 1) div 2 \<longleftrightarrow> \<not> n < 8589934591" by arith
  moreover have "\<not> (int n + 1) div 2 < 0" by simp
  ultimately show ?thesis
    by (simp add: to_bytes_def ceiling_half del: le_bytes.simps)
qed

lemma main_closed:
  "main img P =
     (if length P < 2 ^ 33 - 1
      then \<lparr>new_file = Some (take (injection_point img) img
                 @ le_bytes 4 ((int (length P) + 1) div 2) @ P
                 @ drop (injection_point img + 4 + length P) img),
            raised = None\<rparr>
      else \<lparr>new_file = Some (take (injection_point img) img),
            raised = Some OverflowError\<rparr>)"
proof -
  have rd: "file_read img 0 (int (zephyr_size_pointer_of img))
            = Inr (take (zephyr_size_pointer_of img) img)"
    by (simp add: file_read_def)
  have sk: "file_seek (int (zephyr_actual_offset_of img) + int (length P))
            = Inr (zephyr_size_pointer_of img + 4 + length P)"
    by (simp add: file_seek_def zephyr_actual_offset_of_def nat_add_distrib)
  have rr: "file_read img pos (- 1) = Inr (drop pos img)" for pos
    by (simp add: file_read_def)
  show ?thesis
    unfolding main_def main_resolve_closed injection_point_def
    by (simp add: rd sk rr to_bytes_header del: le_bytes.simps)
qed

lemma le_bytes_4:
  "le_bytes 4 n =
     [word_of_int (n mod 256), word_of_int (n div 256 mod 256),
      word_of_int (n div 256 div 256 mod 256), word_of_int (n div 256 div 256 div 256 mod 256)]"
proof -
  have "(4::nat) = Suc (Suc (Suc (Suc 0)))" by simp
  then show ?thesis by (simp only: le_bytes.simps)
qed

lemma to_bytes_half:
  "to_bytes ((int n + 1) div 2) 4 =
     (if n < 2 ^ 33 - 1 then Inr (le_bytes 4 ((int n + 1) div 2)) else Inl OverflowError)"
  using to_bytes_header [of n] by (simp only: ceiling_half)

subsection \<open>The chain on particular images\<close>

lemma main_resolve_points:
  "\<exists>p. main_resolve img = Inr p \<and>
       zephyr_size_pointer p = int (injection_point img) \<and>
       zephyr_actual_offset p + zephyr_size p = int (old_payload_end img)"
  by (simp add: main_resolve_closed injection_point_def old_payload_end_def)

lemma from_bytes_little_zeros: "from_bytes_little (replicate n 0) = 0"
  by (induction n) simp_all

lemma zero_image_point: "injection_point (replicate n 0) = 0x700C"
  by (simp add: injection_point_def zephyr_size_pointer_of_def bl3_size_of_def
      u_boot_pointer_address_of_def size_of_def UBOOT_pointer_address_of_def field_def
      from_bytes_little_zeros)

lemma length_sample_image: "length sample_image = 0x721E"
  by (simp add: sample_image_def)

lemma sample_image_chain:
  "UBOOT_pointer_address_of sample_image = 0x7200"
  "u_boot_pointer_address_of sample_image = 0x720C"
  "zephyr_size_pointer_of sample_image = 0x7212"
  "zephyr_size_of sample_image = 4"
  "zephyr_actual_offset_of sample_image = 0x7216"
proof -
  show a: "UBOOT_pointer_address_of sample_image = 0x7200"
    by (simp add: UBOOT_pointer_address_of_def field_def sample_image_def)
  have s: "size_of sample_image = 4"
    by (simp add: size_of_def a) (simp add: field_def sample_image_def)
  show b: "u_boot_pointer_address_of sample_image = 0x720C"
    by (simp add: u_boot_pointer_address_of_def a s)
  have c: "bl3_size_of sample_image = 2"
    by (simp add: bl3_size_of_def b) (simp add: field_def sample_image_def)
  show d: "zephyr_size_pointer_of sample_image = 0x7212"
    by (simp add: zephyr_size_pointer_of_def b c)
  show "zephyr_size_of sample_image = 4"
    by (simp add: zephyr_size_of_def d) (simp add: field_def sample_image_def)
  show "zephyr_actual_offset_of sample_image = 0x7216"
    by (simp add: zephyr_actual_offset_of_def d)
qed

lemma sample_image_points:
  "injection_point sample_image = 0x7212" "old_payload_end sample_image = 0x721A"
  by (simp_all add: injection_point_def old_payload_end_def sample_image_chain)

lemma sample_image_in_bounds: "chain_in_bounds sample_image"
  by (simp add: chain_in_bounds_def sample_image_chain length_sample_image)

lemma sample_image_well_formed: "well_formed_chain sample_image"
  by (simp add: well_formed_chain_def sample_image_in_bounds sample_image_points
      length_sample_image)

lemma sample_image_tail:
  "drop 0x7219 sample_image = [0x44, 0xDE, 0xAD, 0xBE, 0xEF]"
  "drop 0x721A sample_image = [0xDE, 0xAD, 0xBE, 0xEF]"
  "take 4 (drop 0x7216 sample_image) = [0x11, 0x22, 0x33, 0x44]"
  by (simp_all add: sample_image_def)

lemma empty_image_chain:
  "injection_point [] = 0x700C" "old_payload_end [] = 0x7010"
  using zero_image_point [of 0]
  by (simp_all add: old_payload_end_def zephyr_actual_offset_of_def zephyr_size_of_def
      injection_point_def field_def)

lemma truncated_image_chain:
  "length (take 0x7218 sample_image) = 0x7218"
  "injection_point (take 0x7218 sample_image) = 0x7212"
  "old_payload_end (take 0x7218 sample_image) = 0x721A"
  "UBOOT_pointer_address_of (take 0x7218 sample_image) = 0x7200"
  "u_boot_pointer_address_of (take 0x7218 sample_image) = 0x720C"
proof -
  let ?t = "take 0x7218 sample_image"
  show "length ?t = 0x7218" by (simp add: length_sample_image)
  show a: "UBOOT_pointer_address_of ?t = 0x7200"
    by (simp add: UBOOT_pointer_address_of_def field_def sample_image_def)
  have s: "size_of ?t = 4"
    by (simp add: size_of_def a) (simp add: field_def sample_image_def)
  show b: "u_boot_pointer_address_of ?t = 0x720C"
    by (simp add: u_boot_pointer_address_of_def a s)
  have c: "bl3_size_of ?t = 2"
    by (simp add: bl3_size_of_def b) (simp add: field_def sample_image_def)
  have d: "zephyr_size_pointer_of ?t = 0x7212"
    by (simp add: zephyr_size_pointer_of_def b c)
  then show "injection_point ?t = 0x7212" by (simp add: injection_point_def)
  have e: "zephyr_size_of ?t = 4"
    by (simp add: zephyr_size_of_def d) (simp add: field_def sample_image_def)
  show "old_payload_end ?t = 0x721A"
    by (simp add: old_payload_end_def zephyr_actual_offset_of_def d e)
qed

subsection \<open>Fields within the image\<close>

lemma field_bound: "int (field img off w) < 256 ^ w"
proof -
  have "from_bytes_little (take w (drop off img)) < 256 ^ length (take w (drop off img))"
    by (rule from_bytes_little_bound)
  also have "\<dots> \<le> (256::int) ^ w"
    by (rule power_increasing) simp_all
  finally show ?thesis
    by (simp add: field_def from_bytes_little_nonneg)
qed

lemma chain_offsets_bounded: "zephyr_actual_offset_of img < 2 ^ 36"
proof -
  have "int (field img (2 * 0x38EA) 2) < 256 ^ 2" "int (field img (2 * 0x38E9) 2) < 256 ^ 2"
    "int (field img (UBOOT_pointer_address_of img) 4) < 256 ^ 4"
    "int (field img (u_boot_pointer_address_of img) 4) < 256 ^ 4"
    by (rule field_bound)+
  then show ?thesis
    by (simp add: zephyr_actual_offset_of_def zephyr_size_pointer_of_def bl3_size_of_def
        u_boot_pointer_address_of_def size_of_def UBOOT_pointer_address_of_def)
qed

lemma le_bytes_field:
  assumes "off + w \<le> length img"
  shows "le_bytes w (int (field img off w)) = take w (drop off img)"
proof -
  from assms have len: "length (take w (drop off img)) = w" by simp
  have "le_bytes (length (take w (drop off img))) (from_bytes_little (take w (drop off img)))
        = take w (drop off img)"
    by (rule le_bytes_from_bytes)
  then show ?thesis
    by (simp only: len field_def int_nat_eq from_bytes_little_nonneg if_True)
qed

lemma round_trip_payload:
  assumes "old_payload_end img \<le> length img"
  shows "main img (take (old_payload_end img - (injection_point img + 4))
                    (drop (injection_point img + 4) img))
         = \<lparr>new_file = Some img, raised = None\<rparr>"
proof -
  let ?ip = "injection_point img"
  let ?c = "field img ?ip 4"
  let ?P = "take (old_payload_end img - (?ip + 4)) (drop (?ip + 4) img)"
  have ope: "old_payload_end img = ?ip + 4 + 2 * ?c"
    by (simp add: old_payload_end_def zephyr_actual_offset_of_def zephyr_size_of_def
        injection_point_def)
  with assms have fits: "?ip + 4 + 2 * ?c \<le> length img" by simp
  then have lenP: "length ?P = 2 * ?c" by (simp add: ope)
  have "int ?c < 256 ^ 4" by (rule field_bound)
  then have small: "2 * ?c < 2 ^ 33 - 1" by simp
  have cnt: "(int (2 * ?c) + 1) div 2 = int ?c" by simp
  from fits have hdr: "le_bytes 4 (int ?c) = take 4 (drop ?ip img)"
    by (intro le_bytes_field) simp
  have P: "?P = take (2 * ?c) (drop 4 (drop ?ip img))"
    by (simp add: ope add.commute)
  have rest: "drop (?ip + 4 + 2 * ?c) img = drop (2 * ?c) (drop 4 (drop ?ip img))"
    by (simp add: add.commute add.left_commute)
  have "take ?ip img @ take 4 (drop ?ip img) @ take (2 * ?c) (drop 4 (drop ?ip img))
          @ drop (2 * ?c) (drop 4 (drop ?ip img)) = img"
    by (simp only: append_take_drop_id)
  then have "take ?ip img @ le_bytes 4 (int ?c) @ ?P @ drop (?ip + 4 + 2 * ?c) img = img"
    by (simp only: hdr P rest)
  then show ?thesis
    using small by (simp only: main_closed lenP cnt if_True)
qed

lemma spec_read_field_in_bounds:
  "off + w \<le> length img \<Longrightarrow>
     spec_read_field img (int off) (int w) = Inr (int (field img off w))"
  by (simp add: spec_read_field_def field_def from_bytes_little_nonneg)

lemma spec_resolve_in_bounds:
  assumes "chain_in_bounds img"
  shows "spec_resolve_injection_point img
         = Inr (int (injection_point img), int (old_payload_end img))"
proof -
  from assms have b:
    "2 * 0x38EA + 2 \<le> length img" "2 * 0x38E9 + 2 \<le> length img"
    "UBOOT_pointer_address_of img + 4 \<le> length img"
    "u_boot_pointer_address_of img + 4 \<le> length img"
    "zephyr_size_pointer_of img + 4 \<le> length img"
    by (simp_all add: chain_in_bounds_def)
  have hi: "spec_read_field img (2 * UBOOT_high_ptr_words) 2
            = Inr (int (field img (2 * 0x38EA) 2))"
    using spec_read_field_in_bounds [OF b(1)] by (simp add: UBOOT_high_ptr_words_def)
  have lo: "spec_read_field img (2 * UBOOT_low_ptr_words) 2
            = Inr (int (field img (2 * 0x38E9) 2))"
    using spec_read_field_in_bounds [OF b(2)] by (simp add: UBOOT_low_ptr_words_def)
  have ptr: "2 * (push_bit 16 (int (field img (2 * 0x38EA) 2))
               + int (field img (2 * 0x38E9) 2) + inner_nvm_section_offset)
             = int (UBOOT_pointer_address_of img)"
    by (simp add: inner_nvm_section_offset_def UBOOT_pointer_address_of_def push_bit_eq_mult)
  have r1: "spec_read_field img (int (UBOOT_pointer_address_of img)) 4
            = Inr (int (field img (UBOOT_pointer_address_of img) 4))"
    using spec_read_field_in_bounds [OF b(3)] by simp
  have ub: "int (UBOOT_pointer_address_of img)
              + 2 * int (field img (UBOOT_pointer_address_of img) 4) + 8
            = int (u_boot_pointer_address_of img)"
    by (simp add: u_boot_pointer_address_of_def size_of_def)
  have r2: "spec_read_field img (int (u_boot_pointer_address_of img)) 4
            = Inr (int (field img (u_boot_pointer_address_of img) 4))"
    using spec_read_field_in_bounds [OF b(4)] by simp
  have zp: "int (u_boot_pointer_address_of img) + 4
              + 2 * int (field img (u_boot_pointer_address_of img) 4)
            = int (zephyr_size_pointer_of img)"
    by (simp add: zephyr_size_pointer_of_def bl3_size_of_def)
  have r3: "spec_read_field img (int (zephyr_size_pointer_of img)) 4
            = Inr (int (field img (zephyr_size_pointer_of img) 4))"
    using spec_read_field_in_bounds [OF b(5)] by simp
  have oe: "int (zephyr_size_pointer_of img) + 4
              + 2 * int (field img (zephyr_size_pointer_of img) 4)
            = int (old_payload_end img)"
    by (simp add: old_payload_end_def zephyr_actual_offset_of_def zephyr_size_of_def)
  show ?thesis
    unfolding spec_resolve_injection_point_def Let_def and_then_def
    by (simp only: hi lo ptr r1 ub r2 zp r3 oe sum.case injection_point_def)
qed

section \<open>The field reader\<close>

text \<open>
  C10. \<open>read_field\<close> is total on reads that pass the end of the file: for every image,
  offset and width with \<open>offset + width > len(image)\<close> it raises nothing and returns the
  little-endian integer of the bytes that exist in \<open>[offset, len(image))\<close>; when
  \<open>offset \<ge> len(image)\<close> it returns 0.
\<close>

theorem read_field_past_end:
  "off + w > length img \<Longrightarrow>
     read_field img (int off) (int w) = Inr (from_bytes_little (drop off img)) \<and>
     (length img \<le> off \<longrightarrow> read_field img (int off) (int w) = Inr 0)"
  by (simp add: read_field_nat)

theorem read_field_past_end_witness:
  "2 + 4 > length [1, 2, 3 :: byte] \<and>
   read_field [1, 2, 3] 2 4 = Inr 3 \<and>
   length [1, 2, 3 :: byte] \<le> 5 \<and>
   read_field [1, 2, 3] 5 4 = Inr 0"
  using read_field_past_end [where off = 2 and w = 4 and img = "[1, 2, 3]"]
    read_field_past_end [where off = 5 and w = 4 and img = "[1, 2, 3]"]
  by simp

text \<open>
  C4, as the specification states it: \<open>read_field\<close> fails with \<open>BoundsError\<close> whenever
  \<open>byte_offset + width > len(image)\<close>. It does not: a 2-byte read at offset 0 of a
  one-byte file returns the value of the one byte.
\<close>

theorem read_field_no_BoundsError_counterexample:
  "(0::int) + 2 > int (length [1 :: byte]) \<and>
   read_field [1] 0 2 = Inr 1 \<and>
   read_field [1] 0 2 \<noteq> Inl BoundsError"
  by (simp add: read_field_def file_seek_def file_read_def)

text \<open>
  C4, amended: \<open>read_field\<close> never fails with \<open>BoundsError\<close> (nor \<open>LayoutError\<close>), and at
  a non-negative offset and width it always returns a value. A read whose end lands at or
  before \<open>len(image)\<close>, exactly at it included, returns the little-endian value of the
  \<open>width\<close> bytes \<open>image[byte_offset : byte_offset + width]\<close>.
\<close>

theorem read_field_never_BoundsError:
  "read_field img offset sz \<noteq> Inl BoundsError \<and>
   read_field img offset sz \<noteq> Inl LayoutError \<and>
   (\<exists>v. read_field img (int off) (int w) = Inr v) \<and>
   (off + w \<le> length img \<longrightarrow>
      length (take w (drop off img)) = w \<and>
      read_field img (int off) (int w) = Inr (from_bytes_little (take w (drop off img))))"
  by (auto simp add: read_field_def file_seek_def file_read_def split: sum.splits if_splits)

theorem read_field_never_BoundsError_witness:
  "1 + 2 \<le> length [1, 2, 3 :: byte] \<and>
   1 + 2 = length [1, 2, 3 :: byte] \<and>
   read_field [1, 2, 3] 1 2 = Inr 770 \<and>
   read_field [1, 2, 3] (- 1) 2 = Inl OSError"
  using read_field_never_BoundsError [where img = "[1, 2, 3]" and off = 1 and w = 2]
  by (simp add: read_field_def file_seek_def)

section \<open>The composer\<close>

text \<open>
  The header is \<open>math.ceil(len(injection_data)/2).to_bytes(4, byteorder='little')\<close>. The
  division of the source is a floating-point one; it is exact for every length below
  \<open>2 ^ 53\<close>, and every length from \<open>2 ^ 33 - 1\<close> on gives a count of at least \<open>2 ^ 32\<close>,
  for which \<open>to_bytes\<close> raises \<open>OverflowError\<close>, so the real-number division of the
  model gives the same outcome for every length.
\<close>

text \<open>
  C8. For every image whose injection point lies within it and every replacement payload,
  the first \<open>injection_point\<close> bytes of the output file are those of the image. This
  holds also for a run that \<open>to_bytes\<close> ends: the prefix is written before the header is
  computed.
\<close>

theorem output_prefix_preserved:
  "injection_point img \<le> length img \<Longrightarrow>
     \<exists>out. new_file (main img P) = Some out \<and>
           take (injection_point img) out = take (injection_point img) img"
  by (simp add: main_closed)

theorem output_prefix_preserved_witness:
  "injection_point sample_image \<le> length sample_image \<and>
   (\<exists>out. new_file (main sample_image [1, 2, 3]) = Some out \<and>
          take 0x7212 out = take 0x7212 sample_image)"
  using output_prefix_preserved [where img = sample_image and P = "[1, 2, 3]"]
  by (simp add: sample_image_points length_sample_image)

text \<open>
  C9, as stated: for every image and payload with
  \<open>injection_point + 4 + len(P) \<le> len(I)\<close> the output is
  \<open>I[0:injection_point] ++ header ++ P ++ I[injection_point+4+len(P):]\<close> and has the length
  of the image. For a payload of \<open>2 ^ 33 - 1\<close> bytes in an image of \<open>2 ^ 34\<close> bytes the
  word count is \<open>2 ^ 32\<close>, \<open>to_bytes(4)\<close> raises \<open>OverflowError\<close>, and the output file
  holds the prefix only.
\<close>

theorem in_place_output_counterexample:
  "injection_point (replicate (2 ^ 34) 0) + 4 + length (replicate (2 ^ 33 - 1) (0::byte))
     \<le> length (replicate (2 ^ 34) (0::byte)) \<and>
   main (replicate (2 ^ 34) 0) (replicate (2 ^ 33 - 1) 0)
     = \<lparr>new_file = Some (replicate 0x700C 0), raised = Some OverflowError\<rparr> \<and>
   length (replicate 0x700C (0::byte)) \<noteq> length (replicate (2 ^ 34) (0::byte))"
  by (simp add: main_closed zero_image_point)

text \<open>
  C9, amended: for every image and every payload shorter than \<open>2 ^ 33 - 1\<close> bytes with
  \<open>injection_point + 4 + len(P) \<le> len(I)\<close>, the run ends without an exception, the output
  is \<open>I[0:injection_point] ++ header ++ P ++ I[injection_point+4+len(P):]\<close>, and its length
  is \<open>len(I)\<close>: the copy of the trailing bytes resumes \<open>len(P)\<close> bytes after the header,
  whatever size the image stores for the original payload.
\<close>

theorem in_place_output:
  "length P < 2 ^ 33 - 1 \<Longrightarrow> injection_point img + 4 + length P \<le> length img \<Longrightarrow>
     main img P =
       \<lparr>new_file = Some (take (injection_point img) img
                @ le_bytes 4 \<lceil>real (length P) / 2\<rceil> @ P
                @ drop (injection_point img + 4 + length P) img),
        raised = None\<rparr> \<and>
     to_bytes \<lceil>real (length P) / 2\<rceil> 4 = Inr (le_bytes 4 \<lceil>real (length P) / 2\<rceil>) \<and>
     length (take (injection_point img) img
                @ le_bytes 4 \<lceil>real (length P) / 2\<rceil> @ P
                @ drop (injection_point img + 4 + length P) img) = length img"
  by (simp add: main_closed to_bytes_half ceiling_half length_le_bytes del: le_bytes.simps)

theorem in_place_output_witness:
  "length [1, 2, 3 :: byte] < 2 ^ 33 - 1 \<and>
   injection_point sample_image + 4 + length [1, 2, 3 :: byte] \<le> length sample_image \<and>
   main sample_image [1, 2, 3] =
     \<lparr>new_file = Some (take 0x7212 sample_image @ [2, 0, 0, 0] @ [1, 2, 3]
                @ [0x44, 0xDE, 0xAD, 0xBE, 0xEF]),
      raised = None\<rparr>"
  using in_place_output [where img = sample_image and P = "[1, 2, 3]"]
  by (simp add: sample_image_points length_sample_image sample_image_tail ceiling_half
      le_bytes_4)

text \<open>
  C5, as stated: for every replacement payload the 4-byte header written at the injection
  point encodes \<open>ceil(len(P)/2)\<close>. For a payload of \<open>2 ^ 33 - 1\<close> bytes the count is
  \<open>2 ^ 32\<close>, which four bytes cannot hold: on the sample image \<open>to_bytes\<close> raises
  \<open>OverflowError\<close> and the output file holds the prefix and no header. And on the empty
  image, whose injection point \<open>0x700C\<close> lies past its end, the header of a one-byte
  payload is written at offset 0, not at the injection point.
\<close>

theorem size_header_counterexample:
  "to_bytes \<lceil>real (length (replicate (2 ^ 33 - 1) (0::byte))) / 2\<rceil> 4 = Inl OverflowError \<and>
   injection_point sample_image \<le> length sample_image \<and>
   main sample_image (replicate (2 ^ 33 - 1) 0)
     = \<lparr>new_file = Some (take 0x7212 sample_image), raised = Some OverflowError\<rparr> \<and>
   injection_point [] = 0x700C \<and>
   main [] [1] = \<lparr>new_file = Some [1, 0, 0, 0, 1], raised = None\<rparr>"
  by (simp add: main_closed to_bytes_def sample_image_points length_sample_image
      empty_image_chain le_bytes_4 ceiling_half)

text \<open>
  C5, amended: for every image whose injection point lies within it
  (\<open>injection_point \<le> len(I)\<close>) and every replacement payload shorter than \<open>2 ^ 33 - 1\<close>
  bytes, the four bytes written at the injection point are the little-endian encoding of
  \<open>ceil(len(P)/2)\<close>: \<open>n/2\<close> for an even length \<open>n\<close>, \<open>(n+1)/2\<close> for an odd one (a 7-byte
  payload gives the header value 4).
\<close>

theorem size_header:
  "injection_point img \<le> length img \<Longrightarrow> length P < 2 ^ 33 - 1 \<Longrightarrow>
     main img P =
       \<lparr>new_file = Some (take (injection_point img) img
                @ le_bytes 4 \<lceil>real (length P) / 2\<rceil> @ P
                @ drop (injection_point img + 4 + length P) img),
        raised = None\<rparr> \<and>
     take 4 (drop (injection_point img)
       (take (injection_point img) img @ le_bytes 4 \<lceil>real (length P) / 2\<rceil> @ P
          @ drop (injection_point img + 4 + length P) img))
       = le_bytes 4 \<lceil>real (length P) / 2\<rceil> \<and>
     to_bytes \<lceil>real (length P) / 2\<rceil> 4 = Inr (le_bytes 4 \<lceil>real (length P) / 2\<rceil>) \<and>
     length (le_bytes 4 \<lceil>real (length P) / 2\<rceil>) = 4 \<and>
     from_bytes_little (le_bytes 4 \<lceil>real (length P) / 2\<rceil>) = \<lceil>real (length P) / 2\<rceil> \<and>
     (even (length P) \<longrightarrow> \<lceil>real (length P) / 2\<rceil> = int (length P) div 2) \<and>
     (odd (length P) \<longrightarrow> \<lceil>real (length P) / 2\<rceil> = (int (length P) + 1) div 2)"
proof -
  assume a: "injection_point img \<le> length img"
  assume b: "length P < 2 ^ 33 - 1"
  let ?c = "(int (length P) + 1) div 2"
  have c0: "0 \<le> ?c" by simp
  from b have c1: "?c < 256 ^ 4" by simp
  have dec: "from_bytes_little (le_bytes 4 ?c) = ?c"
    using c0 c1 by (rule from_bytes_le_bytes)
  have ev: "even (length P) \<longrightarrow> ?c = int (length P) div 2"
    by (auto elim: evenE)
  from a b dec ev show ?thesis
    by (simp add: main_closed to_bytes_half ceiling_half length_le_bytes del: le_bytes.simps)
qed

theorem size_header_witness:
  "injection_point sample_image \<le> length sample_image \<and>
   length [1, 2, 3, 4, 5, 6, 7 :: byte] < 2 ^ 33 - 1 \<and> odd (length [1, 2, 3, 4, 5, 6, 7 :: byte]) \<and>
   to_bytes \<lceil>real (length [1, 2, 3, 4, 5, 6, 7 :: byte]) / 2\<rceil> 4 = Inr [4, 0, 0, 0] \<and>
   from_bytes_little [4, 0, 0, 0] = 4 \<and>
   take 4 (drop 0x7212 (the (new_file (main sample_image [1, 2, 3, 4, 5, 6, 7])))) = [4, 0, 0, 0] \<and>
   even (length [1, 2, 3, 4 :: byte]) \<and>
   to_bytes \<lceil>real (length [1, 2, 3, 4 :: byte]) / 2\<rceil> 4 = Inr [2, 0, 0, 0] \<and>
   take 4 (drop 0x7212 (the (new_file (main sample_image [1, 2, 3, 4])))) = [2, 0, 0, 0]"
  using size_header [where P = "[1, 2, 3, 4, 5, 6, 7]" and img = sample_image]
    size_header [where P = "[1, 2, 3, 4]" and img = sample_image]
  by (simp add: ceiling_half le_bytes_4 to_bytes_def sample_image_points length_sample_image)

text \<open>
  C1, as stated: the bytes of the output after \<open>injection_point + 4 + len(P)\<close> are the
  bytes of the image from \<open>old_payload_end\<close> on. On the sample image, whose chain is
  well formed and whose second payload has four bytes, a payload of three bytes leaves
  the last byte \<open>0x44\<close> of the old payload in the output, before the four trailing bytes.
\<close>

theorem trailing_counterexample:
  "well_formed_chain sample_image \<and>
   raised (main sample_image [1, 2, 3]) = None \<and>
   drop (injection_point sample_image + 4 + length [1, 2, 3 :: byte])
     (the (new_file (main sample_image [1, 2, 3]))) = [0x44, 0xDE, 0xAD, 0xBE, 0xEF] \<and>
   drop (old_payload_end sample_image) sample_image = [0xDE, 0xAD, 0xBE, 0xEF]"
  by (simp add: main_closed sample_image_well_formed sample_image_points sample_image_tail
      length_sample_image length_le_bytes del: le_bytes.simps)

text \<open>
  C1, amended: for every image whose injection point lies within it
  (\<open>injection_point \<le> len(I)\<close>) and every replacement payload shorter than \<open>2 ^ 33 - 1\<close>
  bytes, the run completes and the bytes of the output after
  \<open>injection_point + 4 + len(P)\<close> are the bytes of the image from that same offset on:
  line 76 seeks to \<open>zephyr_actual_offset + len(injection_data)\<close>, so the trailing copy
  resumes \<open>len(P)\<close> bytes after the old header, not at the end that the stored size gives.
\<close>

theorem trailing_resumes_after_payload_length:
  "injection_point img \<le> length img \<Longrightarrow> length P < 2 ^ 33 - 1 \<Longrightarrow>
     \<exists>out. main img P = \<lparr>new_file = Some out, raised = None\<rparr> \<and>
           drop (injection_point img + 4 + length P) out
             = drop (injection_point img + 4 + length P) img"
  by (simp add: main_closed length_le_bytes min_def del: le_bytes.simps)

theorem trailing_resumes_after_payload_length_witness:
  "injection_point sample_image \<le> length sample_image \<and>
   length [1, 2, 3 :: byte] < 2 ^ 33 - 1 \<and>
   (\<exists>out. main sample_image [1, 2, 3] = \<lparr>new_file = Some out, raised = None\<rparr> \<and>
          drop 0x7219 out = [0x44, 0xDE, 0xAD, 0xBE, 0xEF])"
  using trailing_resumes_after_payload_length [where img = sample_image and P = "[1, 2, 3]"]
  by (simp add: sample_image_points sample_image_tail length_sample_image)

text \<open>
  C3, as stated: \<open>len(output) = injection_point + 4 + len(P) + (len(I) - old_payload_end)\<close>.
  On the sample image with a payload of three bytes the output has the \<open>0x721E\<close> bytes of
  the image, and the formula gives \<open>0x721D\<close>.
\<close>

theorem output_length_counterexample:
  "raised (main sample_image [1, 2, 3]) = None \<and>
   int (length (the (new_file (main sample_image [1, 2, 3])))) = 0x721E \<and>
   int (injection_point sample_image) + 4 + int (length [1, 2, 3 :: byte])
     + (int (length sample_image) - int (old_payload_end sample_image)) = 0x721D"
  by (simp add: main_closed sample_image_points length_sample_image length_le_bytes
      del: le_bytes.simps)

text \<open>
  C3, amended: for every image whose injection point lies within it
  (\<open>injection_point \<le> len(I)\<close>) and every replacement payload shorter than \<open>2 ^ 33 - 1\<close>
  bytes, \<open>len(output) = injection_point + 4 + len(P) +
  max(0, len(I) - (injection_point + 4 + len(P)))\<close>; when
  \<open>injection_point + 4 + len(P) \<le> len(I)\<close> this is \<open>len(I)\<close>, whatever the size of the
  original payload.
\<close>

theorem output_length:
  "injection_point img \<le> length img \<Longrightarrow> length P < 2 ^ 33 - 1 \<Longrightarrow>
     \<exists>out. main img P = \<lparr>new_file = Some out, raised = None\<rparr> \<and>
           length out = injection_point img + 4 + length P
                        + (length img - (injection_point img + 4 + length P)) \<and>
           (injection_point img + 4 + length P \<le> length img \<longrightarrow> length out = length img)"
  by (auto simp add: main_closed length_le_bytes min_def simp del: le_bytes.simps)

theorem output_length_witness:
  "injection_point sample_image \<le> length sample_image \<and>
   length [1, 2, 3 :: byte] < 2 ^ 33 - 1 \<and>
   injection_point sample_image + 4 + length [1, 2, 3 :: byte] \<le> length sample_image \<and>
   (\<exists>out. main sample_image [1, 2, 3] = \<lparr>new_file = Some out, raised = None\<rparr> \<and>
          length out = 0x721E)"
  using output_length [where img = sample_image and P = "[1, 2, 3]"]
  by (simp add: sample_image_points length_sample_image)

text \<open>
  C6. Round trip: for every image with a well-formed pointer chain, the payload
  \<open>I[injection_point+4 : old_payload_end]\<close> gives an output file equal to the image. Only
  the last part of \<open>well_formed_chain\<close> is needed, that the second payload ends within the
  image (lemma \<open>round_trip_payload\<close>): the payload then has the stored length, so the
  recomputed header is the stored one and the trailing copy resumes at \<open>old_payload_end\<close>.
\<close>

theorem round_trip:
  "well_formed_chain img \<Longrightarrow>
     main img (take (old_payload_end img - (injection_point img + 4))
                 (drop (injection_point img + 4) img))
       = \<lparr>new_file = Some img, raised = None\<rparr>"
  by (rule round_trip_payload) (simp add: well_formed_chain_def)

theorem round_trip_witness:
  "well_formed_chain sample_image \<and>
   take (old_payload_end sample_image - (injection_point sample_image + 4))
     (drop (injection_point sample_image + 4) sample_image) = [0x11, 0x22, 0x33, 0x44] \<and>
   main sample_image [0x11, 0x22, 0x33, 0x44] = \<lparr>new_file = Some sample_image, raised = None\<rparr>"
  using round_trip [of sample_image]
  by (simp add: sample_image_well_formed sample_image_points sample_image_tail)

section \<open>The resolver\<close>

text \<open>
  C2. For every image whose pointer-chain fields are in bounds, the chain of \<open>main\<close>
  computes what the algorithm of the specification computes: the local
  \<open>zephyr_size_pointer\<close> is its \<open>injection_point\<close>, and
  \<open>zephyr_actual_offset + zephyr_size\<close> is its \<open>old_payload_end\<close>.
\<close>

theorem resolver_follows_algorithm:
  "chain_in_bounds img \<Longrightarrow>
     \<exists>p. main_resolve img = Inr p \<and>
         spec_resolve_injection_point img
           = Inr (zephyr_size_pointer p, zephyr_actual_offset p + zephyr_size p)"
  using main_resolve_points [of img] by (auto simp add: spec_resolve_in_bounds)

theorem resolver_follows_algorithm_witness:
  "chain_in_bounds sample_image \<and>
   (\<exists>p. main_resolve sample_image = Inr p \<and>
        zephyr_size_pointer p = 0x7212 \<and> zephyr_actual_offset p + zephyr_size p = 0x721A \<and>
        spec_resolve_injection_point sample_image = Inr (0x7212, 0x721A))"
  using resolver_follows_algorithm [of sample_image] main_resolve_points [of sample_image]
  by (auto simp add: sample_image_in_bounds sample_image_points)

text \<open>
  C7, as stated: the resolver fails with \<open>BoundsError\<close> if a read exceeds the image and
  with \<open>LayoutError\<close> if a computed size exceeds the remaining image, and composes no
  output then. On the empty image every read exceeds the image, and on the sample image
  cut after \<open>0x7218\<close> bytes the second payload's stored size of four bytes exceeds the two
  bytes that remain; both runs complete and write an output file.
\<close>

theorem resolver_no_error_counterexample:
  "\<not> 2 * 0x38EA + 2 \<le> length ([] :: byte list) \<and>
   main_resolve [] \<noteq> Inl BoundsError \<and>
   main [] [] = \<lparr>new_file = Some [0, 0, 0, 0], raised = None\<rparr> \<and>
   old_payload_end (take 0x7218 sample_image) > length (take 0x7218 sample_image) \<and>
   main_resolve (take 0x7218 sample_image) \<noteq> Inl LayoutError \<and>
   raised (main (take 0x7218 sample_image) []) = None \<and>
   new_file (main (take 0x7218 sample_image) [])
     = Some (take 0x7212 sample_image @ [0, 0, 0, 0] @ [0x11, 0x22])"
proof -
  have t: "drop 0x7216 (take 0x7218 sample_image) = [0x11, 0x22]"
    "take 0x7212 (take 0x7218 sample_image) = take 0x7212 sample_image"
    by (simp_all add: sample_image_def)
  show ?thesis
    by (simp add: main_resolve_closed main_closed empty_image_chain truncated_image_chain
        le_bytes_4 t)
qed

text \<open>
  C7, amended: for every image the resolver returns its offsets and never fails with
  \<open>LayoutError\<close> or \<open>BoundsError\<close>, and no computed size is negative; \<open>main\<close> always goes
  on to open the output file and never ends with either error. When the injection point
  lies within the image and the payload is shorter than \<open>2 ^ 33 - 1\<close> bytes the run
  completes, also when the stored size of the second payload exceeds what remains of the
  image.
\<close>

theorem resolver_never_fails:
  "(\<exists>p. main_resolve img = Inr p \<and>
        zephyr_size_pointer p = int (injection_point img) \<and>
        0 \<le> size_bl31 p \<and> 0 \<le> bl3_size p \<and> 0 \<le> zephyr_size p) \<and>
   main_resolve img \<noteq> Inl BoundsError \<and>
   main_resolve img \<noteq> Inl LayoutError \<and>
   (\<exists>out. new_file (main img P) = Some out) \<and>
   raised (main img P) \<noteq> Some BoundsError \<and>
   raised (main img P) \<noteq> Some LayoutError \<and>
   (injection_point img \<le> length img \<and> length P < 2 ^ 33 - 1 \<longrightarrow>
      raised (main img P) = None)"
  by (simp add: main_resolve_closed main_closed injection_point_def)

theorem resolver_never_fails_witness:
  "(\<exists>p. main_resolve (take 0x7218 sample_image) = Inr p \<and> zephyr_size_pointer p = 0x7212) \<and>
   injection_point (take 0x7218 sample_image) \<le> length (take 0x7218 sample_image) \<and>
   old_payload_end (take 0x7218 sample_image) > length (take 0x7218 sample_image) \<and>
   length [1, 2, 3 :: byte] < 2 ^ 33 - 1 \<and>
   raised (main (take 0x7218 sample_image) [1, 2, 3]) = None"
  using resolver_never_fails [where img = "take 0x7218 sample_image" and P = "[1, 2, 3]"]
  by (auto simp add: truncated_image_chain length_sample_image)

end
